theory Spec2Isabelle
  imports Main
begin

section \<open>SDN sanctions screening: the three connector functions\<close>

text \<open>
  A shallow embedding of \<^verbatim>\<open>app/connector/typescript/functions.ts\<close>:
  \<^verbatim>\<open>getSdnData\<close>, \<^verbatim>\<open>checkCustomerAgainstSdn\<close> and \<^verbatim>\<open>bulkCheckSdn\<close>.
  The remote provider is a parameter; every \<^verbatim>\<open>fetch\<close> is recorded in a log of
  issued requests, every \<^verbatim>\<open>throw\<close> is a value, and the promise each function
  returns is a value that says whether it was fulfilled or rejected.
  \<^verbatim>\<open>console.error\<close> writes a diagnostic line and has no part in any result; it is
  left out.
\<close>

subsection \<open>Values\<close>

text \<open>
  What \<^verbatim>\<open>response.json()\<close> can produce. The cast \<^verbatim>\<open>as SdnRecord[]\<close> is erased at
  run time, so the functions hold whatever JSON value the provider sent. Numbers inside
  a payload are never inspected by the code.
\<close>

datatype json =
    JNull
  | JBool bool
  | JNumber int
  | JString string
  | JArray "json list"
  | JObject "(string \<times> json) list"

text \<open>\<^verbatim>\<open>interface SdnRecord\<close>: fifteen string fields.\<close>

record SdnRecord =
  id :: string
  schema :: string
  name :: string
  aliases :: string
  birth_date :: string
  countries :: string
  addresses :: string
  identifiers :: string
  sanctions :: string
  phones :: string
  emails :: string
  dataset :: string
  first_seen :: string
  last_seen :: string
  last_change :: string

text \<open>The JSON object the provider sends for one record.\<close>

definition record_json :: "SdnRecord \<Rightarrow> json" where
  "record_json r = JObject
     [(''id'', JString (id r)), (''schema'', JString (schema r)),
      (''name'', JString (name r)), (''aliases'', JString (aliases r)),
      (''birth_date'', JString (birth_date r)), (''countries'', JString (countries r)),
      (''addresses'', JString (addresses r)), (''identifiers'', JString (identifiers r)),
      (''sanctions'', JString (sanctions r)), (''phones'', JString (phones r)),
      (''emails'', JString (emails r)), (''dataset'', JString (dataset r)),
      (''first_seen'', JString (first_seen r)), (''last_seen'', JString (last_seen r)),
      (''last_change'', JString (last_change r))]"

text \<open>\<^verbatim>\<open>Array.isArray(v)\<close> and, for an array, \<^verbatim>\<open>v.length\<close>.\<close>

fun isArray :: "json \<Rightarrow> bool" where
  "isArray (JArray xs) = True"
| "isArray v = False"

fun array_length :: "json \<Rightarrow> nat" where
  "array_length (JArray xs) = length xs"
| "array_length v = 0"

text \<open>
  A thrown value: an \<^verbatim>\<open>Error\<close> with its message, or anything else.
  \<^verbatim>\<open>error instanceof Error ? error.message : 'Unknown error'\<close> reads it.
\<close>

datatype thrown = JsError string | NonErrorValue

fun error_message :: "thrown \<Rightarrow> string" where
  "error_message (JsError m) = m"
| "error_message NonErrorValue = ''Unknown error''"

text \<open>The state of the promise an \<^verbatim>\<open>async\<close> function returns.\<close>

datatype 'a promise = Pending | Rejected thrown | Fulfilled 'a

subsection \<open>Result shapes\<close>

text \<open>
  The optional \<^verbatim>\<open>error?: string\<close> is an option. \<^verbatim>\<open>data\<close> and \<^verbatim>\<open>matches\<close> are
  declared \<^verbatim>\<open>SdnRecord[]\<close> and hold the parsed payload as it came.
\<close>

record SdnDataResponse =
  success :: bool
  data :: json
  count :: nat
  error :: "string option"

record CustomerCheckResponse =
  customerName :: string
  isSDN :: "bool option"
  matchCount :: nat
  matches :: json
  riskLevel :: string
  check_error :: "string option"

record BulkCheckSummary =
  critical :: nat
  clear :: nat
  unknown :: nat

record BulkCheckResponse =
  bulk_success :: bool
  totalChecked :: nat
  flaggedCount :: nat
  results :: "CustomerCheckResponse list"
  summary :: BulkCheckSummary
  bulk_error :: "string option"

subsection \<open>The provider and \<^verbatim>\<open>fetch\<close>\<close>

text \<open>
  A request is the URL \<^verbatim>\<open>`${API_BASE_URL}/getsdn?${params.toString()}`\<close> with the
  \<^verbatim>\<open>init\<close> object of the call. The query string is kept as the ordered list of pairs
  the \<^verbatim>\<open>URLSearchParams\<close> holds (its serialisation determines that list and is
  determined by it). The method is \<^verbatim>\<open>GET\<close> in both callers.
\<close>

record request =
  req_base :: string
  req_path :: string
  req_params :: "(string \<times> string) list"
  req_headers :: "(string \<times> string) list"

text \<open>
  A response: \<^verbatim>\<open>response.ok\<close>, \<^verbatim>\<open>response.statusText\<close>, and what
  \<^verbatim>\<open>await response.json()\<close> gives: the parsed value, or the error thrown on a body
  that is not JSON.
\<close>

record response =
  ok :: bool
  statusText :: string
  json_body :: "thrown + json"

text \<open>
  The provider answers the \<open>k\<close>-th request issued (\<open>k\<close> counts the earlier ones):
  it throws (a network-level failure) or responds. It may answer the same request
  differently at different times. Every \<^verbatim>\<open>fetch\<close> settles; a request that is never
  answered is not modelled.
\<close>

type_synonym provider = "nat \<Rightarrow> request \<Rightarrow> thrown + response"

definition fetch :: "provider \<Rightarrow> request list \<Rightarrow> request \<Rightarrow> (thrown + response) \<times> request list" where
  "fetch prov log req = (prov (length log) req, log @ [req])"

text \<open>\<^verbatim>\<open>process.env.SDN_API_URL || 'https://sdn-api-w7wr.onrender.com'\<close>\<close>

definition API_BASE_URL :: "string option \<Rightarrow> string" where
  "API_BASE_URL env =
     (case env of
        None \<Rightarrow> ''https://sdn-api-w7wr.onrender.com''
      | Some u \<Rightarrow> if u = [] then ''https://sdn-api-w7wr.onrender.com'' else u)"

subsection \<open>Numbers as strings\<close>

text \<open>
  The limit is a JavaScript number. The model takes it from the safe integers, the
  integers of magnitude below \<open>2^53\<close> (\<^verbatim>\<open>Number.isSafeInteger\<close>): each of them is a
  double, and \<^verbatim>\<open>toString\<close> prints each of them as its exact decimal digits. Above
  that range a double prints its shortest round-trip digits, which are not the digits of
  the integer; fractions, infinities and \<^verbatim>\<open>NaN\<close> are numbers too. None of these is a
  value of the type, so nothing is said about them.
\<close>

typedef safe_integer = "{i :: int. \<bar>i\<bar> < 2 ^ 53}"
  morphisms int_of safe_integer_of
  by (intro exI [of _ 0]) simp

text \<open>The decimal digits of a natural number.\<close>

definition digit_char :: "nat \<Rightarrow> char" where
  "digit_char d = char_of (48 + d)"

fun decimal_digits :: "nat \<Rightarrow> string" where
  "decimal_digits n =
     (if n < 10 then [digit_char n] else decimal_digits (n div 10) @ [digit_char (n mod 10)])"

declare decimal_digits.simps [simp del]

text \<open>
  \<^verbatim>\<open>limit.toString()\<close> on a safe integer: its decimal digits, after a minus sign when
  it is negative.
\<close>

definition number_toString :: "safe_integer \<Rightarrow> string" where
  "number_toString l =
     (if int_of l < 0 then CHR ''-'' # decimal_digits (nat (- int_of l))
      else decimal_digits (nat (int_of l)))"

text \<open>Reading a decimal string back, to say that a string denotes a number.\<close>

definition digit_value :: "char \<Rightarrow> nat" where
  "digit_value c = of_char c - 48"

definition read_nat :: "string \<Rightarrow> nat" where
  "read_nat s = foldl (\<lambda>acc c. 10 * acc + digit_value c) 0 s"

fun read_number :: "string \<Rightarrow> int" where
  "read_number [] = 0"
| "read_number (c # cs) = (if c = CHR ''-'' then - int (read_nat cs) else int (read_nat (c # cs)))"

subsection \<open>\<^verbatim>\<open>getSdnData\<close>\<close>

text \<open>\<^verbatim>\<open>if (name)\<close> on an optional string: absent and empty are both falsy.\<close>

fun truthy_string :: "string option \<Rightarrow> bool" where
  "truthy_string None = False"
| "truthy_string (Some s) = (s \<noteq> [])"

text \<open>
  The three conditional \<^verbatim>\<open>params.append\<close> calls; \<open>limit\<close> is the parameter after
  its default has been applied, and \<^verbatim>\<open>if (limit)\<close> is false exactly for zero.
\<close>

definition getSdnData_params ::
  "string option \<Rightarrow> string option \<Rightarrow> safe_integer \<Rightarrow> (string \<times> string) list" where
  "getSdnData_params name_arg country limit =
     (if truthy_string name_arg then [(''name'', the name_arg)] else []) @
     (if truthy_string country then [(''country'', the country)] else []) @
     (if int_of limit \<noteq> 0 then [(''limit'', number_toString limit)] else [])"

text \<open>The default of the parameter: \<^verbatim>\<open>limit: number = 100\<close>.\<close>

definition default_limit :: safe_integer where
  "default_limit = safe_integer_of 100"

definition getSdnData_request ::
  "string option \<Rightarrow> string option \<Rightarrow> string option \<Rightarrow> safe_integer option \<Rightarrow> request" where
  "getSdnData_request env name_arg country limit_arg =
     \<lparr>req_base = API_BASE_URL env, req_path = ''/getsdn'',
      req_params = getSdnData_params name_arg country
                     (case limit_arg of None \<Rightarrow> default_limit | Some l \<Rightarrow> l),
      req_headers = [(''Content-Type'', ''application/json'')]\<rparr>"

text \<open>The body of the \<^verbatim>\<open>try\<close> block: \<open>Inl\<close> is a throw.\<close>

definition getSdnData_try :: "thrown + response \<Rightarrow> thrown + SdnDataResponse" where
  "getSdnData_try fetched =
     (case fetched of
        Inl e \<Rightarrow> Inl e
      | Inr resp \<Rightarrow>
          if \<not> ok resp then Inl (JsError (''SDN API request failed: '' @ statusText resp))
          else (case json_body resp of
                  Inl e \<Rightarrow> Inl e
                | Inr d \<Rightarrow> Inr \<lparr>success = True, data = d,
                               count = (if isArray d then array_length d else 0),
                               error = None\<rparr>))"

text \<open>The \<^verbatim>\<open>catch\<close> block.\<close>

definition getSdnData_catch :: "thrown \<Rightarrow> SdnDataResponse" where
  "getSdnData_catch e = \<lparr>success = False, data = JArray [], count = 0, error = Some (error_message e)\<rparr>"

definition getSdnData ::
  "string option \<Rightarrow> provider \<Rightarrow> request list \<Rightarrow> string option \<Rightarrow> string option
     \<Rightarrow> safe_integer option \<Rightarrow> SdnDataResponse promise \<times> request list" where
  "getSdnData env prov log name_arg country limit_arg =
     (let (fetched, log') = fetch prov log (getSdnData_request env name_arg country limit_arg)
      in (case getSdnData_try fetched of
            Inl e \<Rightarrow> Fulfilled (getSdnData_catch e)
          | Inr r \<Rightarrow> Fulfilled r,
          log'))"

subsection \<open>\<^verbatim>\<open>checkCustomerAgainstSdn\<close>\<close>

text \<open>
  \<^verbatim>\<open>name\<close> is appended unconditionally, \<^verbatim>\<open>fuzzy=true\<close> when the flag is set;
  \<^verbatim>\<open>fetch(url)\<close> is called without an init object.
\<close>

definition check_request :: "string option \<Rightarrow> string \<Rightarrow> bool \<Rightarrow> request" where
  "check_request env cname fuzzyMatch =
     \<lparr>req_base = API_BASE_URL env, req_path = ''/getsdn'',
      req_params = [(''name'', cname)] @ (if fuzzyMatch then [(''fuzzy'', ''true'')] else []),
      req_headers = []\<rparr>"

definition check_try :: "string \<Rightarrow> thrown + response \<Rightarrow> thrown + CustomerCheckResponse" where
  "check_try cname fetched =
     (case fetched of
        Inl e \<Rightarrow> Inl e
      | Inr resp \<Rightarrow>
          if \<not> ok resp then Inl (JsError (''SDN check failed: '' @ statusText resp))
          else (case json_body resp of
                  Inl e \<Rightarrow> Inl e
                | Inr m \<Rightarrow>
                    (let hasMatch = (isArray m \<and> array_length m > 0)
                     in Inr \<lparr>customerName = cname, isSDN = Some hasMatch,
                             matchCount = (if isArray m then array_length m else 0),
                             matches = m,
                             riskLevel = (if hasMatch then ''CRITICAL'' else ''CLEAR''),
                             check_error = None\<rparr>)))"

definition check_catch :: "string \<Rightarrow> thrown \<Rightarrow> CustomerCheckResponse" where
  "check_catch cname e =
     \<lparr>customerName = cname, isSDN = None, matchCount = 0, matches = JArray [],
      riskLevel = ''UNKNOWN'', check_error = Some (error_message e)\<rparr>"

definition checkCustomerAgainstSdn ::
  "string option \<Rightarrow> provider \<Rightarrow> request list \<Rightarrow> string \<Rightarrow> bool
     \<Rightarrow> CustomerCheckResponse promise \<times> request list" where
  "checkCustomerAgainstSdn env prov log cname fuzzyMatch =
     (let (fetched, log') = fetch prov log (check_request env cname fuzzyMatch)
      in (case check_try cname fetched of
            Inl e \<Rightarrow> Fulfilled (check_catch cname e)
          | Inr r \<Rightarrow> Fulfilled r,
          log'))"

subsection \<open>\<^verbatim>\<open>bulkCheckSdn\<close>\<close>

text \<open>
  The argument at run time: something that is not an array (\<^verbatim>\<open>null\<close>,
  \<^verbatim>\<open>undefined\<close>, an object), or an array. An element of the array is a name, or a
  hole (\<^verbatim>\<open>['Jane Doe', , 'John Smith']\<close> has length 3 and a hole at index 1): the
  guard \<^verbatim>\<open>!Array.isArray(customerNames) || customerNames.length === 0\<close> looks at
  neither. An element that is present and not a string is outside the declared
  \<^verbatim>\<open>string[]\<close> and is not modelled; the check is called on it like on a name, and
  what its conversion to a string can throw is thrown inside the \<^verbatim>\<open>try\<close> block of
  the check.
\<close>

datatype names_arg = NotAnArray | Names "string option list"

text \<open>
  \<^verbatim>\<open>customerNames.map(name => checkCustomerAgainstSdn(name, true))\<close>: the calls are made
  in input order, and each runs up to its \<^verbatim>\<open>await fetch(url)\<close> before the next one
  starts, so the requests are issued in input order. \<^verbatim>\<open>map\<close> does not call its
  function on a hole and leaves a hole in the array it returns.
\<close>

fun check_each ::
  "string option \<Rightarrow> provider \<Rightarrow> request list \<Rightarrow> string option list
     \<Rightarrow> CustomerCheckResponse promise option list \<times> request list" where
  "check_each env prov log [] = ([], log)"
| "check_each env prov log (None # xs) =
     (let (ps, log') = check_each env prov log xs
      in (None # ps, log'))"
| "check_each env prov log (Some n # xs) =
     (let (p, log') = checkCustomerAgainstSdn env prov log n True;
          (ps, log'') = check_each env prov log' xs
      in (Some p # ps, log''))"

text \<open>
  \<^verbatim>\<open>Promise.all\<close> reads its argument through the array iterator, which gives
  \<^verbatim>\<open>undefined\<close> for a hole, and passes every element to \<^verbatim>\<open>Promise.resolve\<close>: a hole
  becomes a promise fulfilled with \<^verbatim>\<open>undefined\<close> (\<open>None\<close>), a promise stays what it
  is.
\<close>

fun resolve_element :: "'a promise option \<Rightarrow> 'a option promise" where
  "resolve_element None = Fulfilled None"
| "resolve_element (Some Pending) = Pending"
| "resolve_element (Some (Rejected e)) = Rejected e"
| "resolve_element (Some (Fulfilled v)) = Fulfilled (Some v)"

text \<open>
  The promises settle in some order, here the order of their delays (\<open>delay i\<close> is
  how long the \<open>i\<close>-th takes; equal delays settle in index order). A fulfilled
  promise stores its value in the slot of its own index; the first rejection rejects the
  whole; when every slot is filled the array of values is the result.
\<close>

definition completion_order :: "(nat \<Rightarrow> nat) \<Rightarrow> nat \<Rightarrow> nat list" where
  "completion_order delay n = sort_key delay [0..<n]"

fun settle :: "nat list \<Rightarrow> 'a promise list \<Rightarrow> 'a option list \<Rightarrow> 'a list promise" where
  "settle [] ps slots = (case those slots of None \<Rightarrow> Pending | Some vs \<Rightarrow> Fulfilled vs)"
| "settle (i # is) ps slots =
     (if i < length ps then
        (case ps ! i of
           Pending \<Rightarrow> settle is ps slots
         | Rejected e \<Rightarrow> Rejected e
         | Fulfilled v \<Rightarrow> settle is ps (slots[i := Some v]))
      else settle is ps slots)"

definition promise_all :: "(nat \<Rightarrow> nat) \<Rightarrow> 'a promise list \<Rightarrow> 'a list promise" where
  "promise_all delay ps =
     settle (completion_order delay (length ps)) ps (replicate (length ps) None)"

text \<open>The early return of the validation and the \<^verbatim>\<open>catch\<close> block build the same shape.\<close>

definition bulk_failure :: "string \<Rightarrow> BulkCheckResponse" where
  "bulk_failure msg =
     \<lparr>bulk_success = False, totalChecked = 0, flaggedCount = 0, results = [],
      summary = \<lparr>critical = 0, clear = 0, unknown = 0\<rparr>, bulk_error = Some msg\<rparr>"

text \<open>The tallies and the response of lines 180 to 192, on results that are all objects.\<close>

definition bulk_aggregate :: "CustomerCheckResponse list \<Rightarrow> BulkCheckResponse" where
  "bulk_aggregate rs =
     (let flaggedCustomers = filter (\<lambda>r. isSDN r = Some True) rs
      in \<lparr>bulk_success = True, totalChecked = length rs,
          flaggedCount = length flaggedCustomers, results = rs,
          summary = \<lparr>critical = length flaggedCustomers,
                     clear = length (filter (\<lambda>r. riskLevel r = ''CLEAR'') rs),
                     unknown = length (filter (\<lambda>r. riskLevel r = ''UNKNOWN'') rs)\<rparr>,
          bulk_error = None\<rparr>)"

text \<open>
  The \<^verbatim>\<open>TypeError\<close> Node throws when \<^verbatim>\<open>r.isSDN\<close> is read and \<^verbatim>\<open>r\<close> is
  \<^verbatim>\<open>undefined\<close>.
\<close>

definition undefined_isSDN :: thrown where
  "undefined_isSDN =
     JsError (''Cannot read properties of undefined (reading '' @ [CHR 0x27] @ ''isSDN'' @
              [CHR 0x27] @ '')'')"

text \<open>
  What follows \<^verbatim>\<open>await Promise.all(checkPromises)\<close> in the \<^verbatim>\<open>try\<close> block. The
  first \<^verbatim>\<open>results.filter(r => r.isSDN === true)\<close> visits every element and throws at
  one that is \<^verbatim>\<open>undefined\<close>; \<open>those\<close> gives the results when none is.
\<close>

definition bulk_try :: "CustomerCheckResponse option list \<Rightarrow> thrown + BulkCheckResponse" where
  "bulk_try settled =
     (case those settled of
        None \<Rightarrow> Inl undefined_isSDN
      | Some rs \<Rightarrow> Inr (bulk_aggregate rs))"

text \<open>The \<^verbatim>\<open>catch\<close> block.\<close>

definition bulk_catch :: "thrown \<Rightarrow> BulkCheckResponse" where
  "bulk_catch e = bulk_failure (error_message e)"

definition bulkCheckSdn ::
  "string option \<Rightarrow> provider \<Rightarrow> (nat \<Rightarrow> nat) \<Rightarrow> request list \<Rightarrow> names_arg
     \<Rightarrow> BulkCheckResponse promise \<times> request list" where
  "bulkCheckSdn env prov delay log customerNames =
     (case customerNames of
        NotAnArray \<Rightarrow> (Fulfilled (bulk_failure ''customerNames must be a non-empty array''), log)
      | Names xs \<Rightarrow>
          if length xs = 0
          then (Fulfilled (bulk_failure ''customerNames must be a non-empty array''), log)
          else
            (let (checkPromises, log') = check_each env prov log xs
             in (case promise_all delay (map resolve_element checkPromises) of
                   Pending \<Rightarrow> Pending
                 | Rejected e \<Rightarrow> Fulfilled (bulk_catch e)
                 | Fulfilled settled \<Rightarrow>
                     (case bulk_try settled of
                        Inl e \<Rightarrow> Fulfilled (bulk_catch e)
                      | Inr b \<Rightarrow> Fulfilled b),
                 log')))"

subsection \<open>Derived notions used in the statements\<close>

text \<open>
  The value \<^verbatim>\<open>checkCustomerAgainstSdn\<close> is fulfilled with, as a function of what
  its \<^verbatim>\<open>fetch\<close> gave: the \<^verbatim>\<open>try\<close> block's result, or the \<^verbatim>\<open>catch\<close> block's.
\<close>

definition check_value :: "string \<Rightarrow> thrown + response \<Rightarrow> CustomerCheckResponse" where
  "check_value cname fetched =
     (case check_try cname fetched of Inl e \<Rightarrow> check_catch cname e | Inr r \<Rightarrow> r)"

text \<open>
  The value \<^verbatim>\<open>getSdnData\<close> is fulfilled with, as a function of what its
  \<^verbatim>\<open>fetch\<close> gave.
\<close>

definition lookup_value :: "thrown + response \<Rightarrow> SdnDataResponse" where
  "lookup_value fetched =
     (case getSdnData_try fetched of Inl e \<Rightarrow> getSdnData_catch e | Inr r \<Rightarrow> r)"

text \<open>The values of the checks of a batch: the \<open>i\<close>-th name meets the \<open>i\<close>-th request issued.\<close>

definition bulk_values ::
  "string option \<Rightarrow> provider \<Rightarrow> request list \<Rightarrow> string list \<Rightarrow> CustomerCheckResponse list" where
  "bulk_values env prov log ns =
     map (\<lambda>i. check_value (ns ! i) (prov (length log + i) (check_request env (ns ! i) True)))
       [0..<length ns]"

text \<open>
  A lookup fails when \<^verbatim>\<open>fetch\<close> throws, the response is not 2xx, or its body is not
  JSON.
\<close>

definition lookup_failed :: "thrown + response \<Rightarrow> bool" where
  "lookup_failed fetched =
     (case fetched of Inl e \<Rightarrow> True | Inr resp \<Rightarrow> \<not> ok resp \<or> isl (json_body resp))"

text \<open>The match flag and the risk level of a result agree.\<close>

definition consistent :: "CustomerCheckResponse \<Rightarrow> bool" where
  "consistent r =
     ((isSDN r = Some True \<and> riskLevel r = ''CRITICAL'') \<or>
      (isSDN r = Some False \<and> riskLevel r = ''CLEAR'') \<or>
      (isSDN r = None \<and> riskLevel r = ''UNKNOWN''))"

text \<open>The value of a fulfilled promise.\<close>

fun fulfilled_value :: "'a promise \<Rightarrow> 'a option" where
  "fulfilled_value (Fulfilled v) = Some v"
| "fulfilled_value p = None"

text \<open>
  The values \<^verbatim>\<open>Promise.all\<close> collects from a batch: \<^verbatim>\<open>undefined\<close> for a hole, and
  for a name the value of its check, which meets the next request issued.
\<close>

fun sparse_values ::
  "string option \<Rightarrow> provider \<Rightarrow> request list \<Rightarrow> string option list
     \<Rightarrow> CustomerCheckResponse option list" where
  "sparse_values env prov log [] = []"
| "sparse_values env prov log (None # xs) = None # sparse_values env prov log xs"
| "sparse_values env prov log (Some n # xs) =
     Some (check_value n (prov (length log) (check_request env n True))) #
     sparse_values env prov (log @ [check_request env n True]) xs"

subsection \<open>The declared shape of the records\<close>

text \<open>
  \<^verbatim>\<open>interface SdnRecord\<close> as a predicate on JSON values: an object that has each of
  the fifteen fields, with a string in it. \<^verbatim>\<open>SdnRecord[]\<close> is an array of such
  objects.
\<close>

definition record_fields :: "string list" where
  "record_fields =
     [''id'', ''schema'', ''name'', ''aliases'', ''birth_date'', ''countries'', ''addresses'',
      ''identifiers'', ''sanctions'', ''phones'', ''emails'', ''dataset'', ''first_seen'',
      ''last_seen'', ''last_change'']"

fun is_string :: "json option \<Rightarrow> bool" where
  "is_string (Some (JString s)) = True"
| "is_string v = False"

fun is_SdnRecord :: "json \<Rightarrow> bool" where
  "is_SdnRecord (JObject kvs) = list_all (\<lambda>f. is_string (map_of kvs f)) record_fields"
| "is_SdnRecord v = False"

fun is_SdnRecord_array :: "json \<Rightarrow> bool" where
  "is_SdnRecord_array (JArray xs) = list_all is_SdnRecord xs"
| "is_SdnRecord_array v = False"

subsection \<open>The decision rule as the specification words it\<close>

text \<open>
  The decision rule of the specification (section 4.2), in its own words, on the result
  of a lookup: a failed lookup gives match flag \<open>null\<close> and risk \<open>UNKNOWN\<close>; a
  successful one with zero matches gives \<open>false\<close> and \<open>CLEAR\<close>; a successful one
  with one or more matches gives \<open>true\<close> and \<open>CRITICAL\<close>.
\<close>

definition spec_decision_rule :: "SdnDataResponse \<Rightarrow> bool option \<times> string" where
  "spec_decision_rule lr =
     (if \<not> success lr then (None, ''UNKNOWN'')
      else if count lr = 0 then (Some False, ''CLEAR'')
      else (Some True, ''CRITICAL''))"

text \<open>The classification a check result carries: match flag and risk.\<close>

definition classification :: "CustomerCheckResponse \<Rightarrow> bool option \<times> string" where
  "classification r = (isSDN r, riskLevel r)"

subsection \<open>Concrete providers and inputs\<close>

text \<open>A record as the provider sends it.\<close>

definition example_record :: SdnRecord where
  "example_record =
     \<lparr>id = ''ofac-1'', schema = ''Person'', name = ''Known Sanctioned Entity'',
      aliases = ''KSE'', birth_date = ''1970-01-01'', countries = ''ir'',
      addresses = ''Tehran'', identifiers = ''P123'', sanctions = ''SDGT'',
      phones = ''none'', emails = ''none'', dataset = ''us_ofac_sdn'',
      first_seen = ''2025-08-06'', last_seen = ''2025-08-06'', last_change = ''2025-08-06''\<rparr>"

text \<open>A 200 response with a JSON body.\<close>

definition ok_response :: "json \<Rightarrow> response" where
  "ok_response v = \<lparr>ok = True, statusText = ''OK'', json_body = Inr v\<rparr>"

text \<open>One record for the sanctioned name, none for any other name.\<close>

definition scenario_provider :: provider where
  "scenario_provider k req =
     (if (''name'', ''Known Sanctioned Entity'') \<in> set (req_params req)
      then Inr (ok_response (JArray [record_json example_record]))
      else Inr (ok_response (JArray [])))"

text \<open>
  A provider that finds the record only when asked for fuzzy matching: the name is
  misspelt, so an exact search finds nothing.
\<close>

definition fuzzy_only_provider :: provider where
  "fuzzy_only_provider k req =
     (if (''fuzzy'', ''true'') \<in> set (req_params req)
      then Inr (ok_response (JArray [record_json example_record]))
      else Inr (ok_response (JArray [])))"

text \<open>Every request is answered 200 with a JSON object, not an array.\<close>

definition object_provider :: provider where
  "object_provider k req = Inr (ok_response (JObject [(''error'', JString ''rate limited'')]))"

text \<open>Every request is answered 503, with a body that is not JSON.\<close>

definition unavailable_provider :: provider where
  "unavailable_provider k req =
     Inr \<lparr>ok = False, statusText = ''Service Unavailable'', json_body = Inl (JsError ''Unexpected token'')\<rparr>"

text \<open>Every \<^verbatim>\<open>fetch\<close> throws.\<close>

definition unreachable_provider :: provider where
  "unreachable_provider k req = Inl (JsError ''fetch failed'')"

text \<open>The last promise settles first.\<close>

definition reverse_delay :: "nat \<Rightarrow> nat" where
  "reverse_delay i = 10 - i"

text \<open>The names of the batch scenario.\<close>

definition three_names :: "string list" where
  "three_names = [''Jane Doe'', ''Known Sanctioned Entity'', ''John Smith'']"

text \<open>The array \<^verbatim>\<open>['Jane Doe', , 'John Smith']\<close>, with a hole at index 1.\<close>

definition names_with_hole :: "string option list" where
  "names_with_hole = [Some ''Jane Doe'', None, Some ''John Smith'']"

text \<open>
  Every request is answered 200 with an array of one object that has an \<open>id\<close> and
  none of the other fields.
\<close>

definition partial_record_provider :: provider where
  "partial_record_provider k req =
     Inr (ok_response (JArray [JObject [(''id'', JString ''ofac-1'')]]))"

section \<open>Properties\<close>

subsection \<open>What a single check and a batch compute\<close>

lemma check_eq:
  "checkCustomerAgainstSdn env prov log cname fz =
     (Fulfilled (check_value cname (prov (length log) (check_request env cname fz))),
      log @ [check_request env cname fz])"
  by (simp add: checkCustomerAgainstSdn_def fetch_def check_value_def split: sum.splits)

lemma check_value_name: "customerName (check_value cname fetched) = cname"
  by (simp add: check_value_def check_try_def check_catch_def Let_def split: sum.splits)

lemma check_each_resolved:
  "map resolve_element (fst (check_each env prov log xs)) =
     map Fulfilled (sparse_values env prov log xs)"
proof (induction xs arbitrary: log)
  case Nil
  show ?case by simp
next
  case (Cons x xs)
  then show ?case by (cases x) (simp_all add: check_eq case_prod_beta)
qed

lemma check_each_dense_snd:
  "snd (check_each env prov log (map Some ns)) = log @ map (\<lambda>n. check_request env n True) ns"
  by (induction ns arbitrary: log) (simp_all add: check_eq case_prod_beta)

lemma sparse_values_dense_length:
  "length (sparse_values env prov log (map Some ns)) = length ns"
  by (induction ns arbitrary: log) simp_all

lemma sparse_values_dense_nth:
  "i < length ns \<Longrightarrow>
   sparse_values env prov log (map Some ns) ! i =
     Some (check_value (ns ! i) (prov (length log + i) (check_request env (ns ! i) True)))"
proof (induction ns arbitrary: log i)
  case Nil
  then show ?case by simp
next
  case (Cons n ns)
  show ?case
  proof (cases i)
    case 0
    then show ?thesis by simp
  next
    case (Suc j)
    with Cons.prems have "j < length ns" by simp
    from Cons.IH [OF this, of "log @ [check_request env n True]"] Suc
    show ?thesis by simp
  qed
qed

lemma bulk_values_length: "length (bulk_values env prov log ns) = length ns"
  by (simp add: bulk_values_def)

lemma bulk_values_nth:
  "i < length ns \<Longrightarrow> bulk_values env prov log ns ! i =
     check_value (ns ! i) (prov (length log + i) (check_request env (ns ! i) True))"
  by (simp add: bulk_values_def)

lemma sparse_values_dense:
  "sparse_values env prov log (map Some ns) = map Some (bulk_values env prov log ns)"
  by (rule nth_equalityI)
     (simp_all add: sparse_values_dense_length sparse_values_dense_nth bulk_values_def)

lemma sparse_values_hole:
  "None \<in> set (sparse_values env prov log xs) \<longleftrightarrow> None \<in> set xs"
proof (induction xs arbitrary: log)
  case Nil
  show ?case by simp
next
  case (Cons x xs)
  then show ?case by (cases x) simp_all
qed

lemma sparse_values_are_checks:
  "Some r \<in> set (sparse_values env prov log xs) \<Longrightarrow> \<exists>n fetched. r = check_value n fetched"
proof (induction xs arbitrary: log)
  case Nil
  then show ?case by simp
next
  case (Cons x xs)
  then show ?case by (cases x) auto
qed

subsection \<open>\<^verbatim>\<open>Promise.all\<close> over fulfilled promises\<close>

lemma those_map_Some: "those (map Some vs) = Some vs"
  by (induction vs) simp_all

lemma those_None: "those ws = None \<longleftrightarrow> None \<in> set ws"
  by (induction ws) (auto split: option.splits)

lemma those_Some: "those ws = Some rs \<Longrightarrow> ws = map Some rs"
  by (induction ws arbitrary: rs) (auto split: option.splits)

text \<open>
  Invariant of the settling loop: a slot holds the value of its own promise, or is
  still empty and its index is yet to come.
\<close>

lemma settle_fulfilled:
  "length slots = length vs \<Longrightarrow>
   (\<forall>j<length vs. slots ! j = Some (vs ! j) \<or> (slots ! j = None \<and> j \<in> set js)) \<Longrightarrow>
   settle js (map Fulfilled vs) slots = Fulfilled vs"
proof (induction js arbitrary: slots)
  case Nil
  then have "slots = map Some vs"
    by (intro nth_equalityI) simp_all
  then show ?case by (simp add: those_map_Some)
next
  case (Cons i js)
  show ?case
  proof (cases "i < length vs")
    case True
    have "settle js (map Fulfilled vs) (slots[i := Some (vs ! i)]) = Fulfilled vs"
    proof (rule Cons.IH)
      show "length (slots[i := Some (vs ! i)]) = length vs" using Cons.prems(1) by simp
      show "\<forall>j<length vs. slots[i := Some (vs ! i)] ! j = Some (vs ! j) \<or>
              (slots[i := Some (vs ! i)] ! j = None \<and> j \<in> set js)"
      proof (intro allI impI)
        fix j assume j: "j < length vs"
        show "slots[i := Some (vs ! i)] ! j = Some (vs ! j) \<or>
              (slots[i := Some (vs ! i)] ! j = None \<and> j \<in> set js)"
        proof (cases "j = i")
          case True
          with j Cons.prems(1) show ?thesis by simp
        next
          case False
          with j Cons.prems(2) show ?thesis by auto
        qed
      qed
    qed
    with True show ?thesis by simp
  next
    case False
    have "settle js (map Fulfilled vs) slots = Fulfilled vs"
    proof (rule Cons.IH)
      show "length slots = length vs" by (rule Cons.prems(1))
      show "\<forall>j<length vs. slots ! j = Some (vs ! j) \<or> (slots ! j = None \<and> j \<in> set js)"
        using Cons.prems(2) False by auto
    qed
    with False show ?thesis by simp
  qed
qed

lemma set_completion_order: "set (completion_order delay n) = {0..<n}"
  by (simp add: completion_order_def)

text \<open>
  Every order in which the promises can settle is the completion order of some delay
  function, so a statement for all delays is a statement for all completion orders.
\<close>

lemma every_completion_order_arises:
  assumes d: "distinct perm" and s: "set perm = {0..<n}"
  shows "\<exists>delay. completion_order delay n = perm"
proof -
  have len: "length perm = n"
    using distinct_card [OF d] s by simp
  define delay where "delay = (\<lambda>x. the (map_of (zip perm [0..<n]) x))"
  have m: "map delay perm = [0..<n]"
  proof (rule nth_equalityI)
    show "length (map delay perm) = length [0..<n]" using len by simp
  next
    fix i assume "i < length (map delay perm)"
    then have i: "i < n" using len by simp
    have "map_of (zip perm [0..<n]) (perm ! i) = Some ([0..<n] ! i)"
      by (rule map_of_zip_nth) (use len d i in simp_all)
    with i len show "map delay perm ! i = [0..<n] ! i" by (simp add: delay_def)
  qed
  have inj: "inj_on delay {0..<n}"
    using m d s by (metis distinct_map distinct_upt)
  let ?srt = "sort_key delay [0..<n]"
  have "map delay ?srt = map delay perm"
  proof (rule sorted_distinct_set_unique)
    show "sorted (map delay ?srt)" by (rule sorted_sort_key)
    show "distinct (map delay ?srt)" using inj by (simp add: distinct_map)
    show "sorted (map delay perm)" by (simp add: m)
    show "distinct (map delay perm)" by (simp add: m)
    show "set (map delay ?srt) = set (map delay perm)" using s by simp
  qed
  moreover have "inj_on delay (set ?srt \<union> set perm)" using inj s by simp
  ultimately have "?srt = perm" by (simp add: inj_on_map_eq_map)
  then show ?thesis unfolding completion_order_def by blast
qed

lemma promise_all_fulfilled: "promise_all delay (map Fulfilled vs) = Fulfilled vs"
  unfolding promise_all_def
  by (rule settle_fulfilled) (simp_all add: set_completion_order)

subsection \<open>The batch on its three kinds of input\<close>

lemma bulk_invalid:
  "arg = NotAnArray \<or> arg = Names [] \<Longrightarrow>
   bulkCheckSdn env prov delay log arg =
     (Fulfilled (bulk_failure ''customerNames must be a non-empty array''), log)"
  by (auto simp: bulkCheckSdn_def)

lemma bulk_general:
  "xs \<noteq> [] \<Longrightarrow>
   bulkCheckSdn env prov delay log (Names xs) =
     (Fulfilled (case those (sparse_values env prov log xs) of
                   None \<Rightarrow> bulk_catch undefined_isSDN
                 | Some rs \<Rightarrow> bulk_aggregate rs),
      snd (check_each env prov log xs))"
  by (simp add: bulkCheckSdn_def case_prod_beta check_each_resolved promise_all_fulfilled
      bulk_try_def split: option.splits)

lemma bulk_hole:
  "None \<in> set xs \<Longrightarrow>
   fst (bulkCheckSdn env prov delay log (Names xs)) = Fulfilled (bulk_catch undefined_isSDN)"
proof -
  assume h: "None \<in> set xs"
  then have ne: "xs \<noteq> []" by auto
  from h have "those (sparse_values env prov log xs) = None"
    by (simp add: those_None sparse_values_hole)
  then show ?thesis by (simp add: bulk_general [OF ne])
qed

lemma bulk_nonempty:
  "ns \<noteq> [] \<Longrightarrow>
   bulkCheckSdn env prov delay log (Names (map Some ns)) =
     (Fulfilled (bulk_aggregate (bulk_values env prov log ns)),
      log @ map (\<lambda>n. check_request env n True) ns)"
  by (simp add: bulk_general sparse_values_dense those_map_Some check_each_dense_snd)

subsection \<open>The claims\<close>

text \<open>
  C1. The single-name check classifies by the outcome of its lookup. If \<^verbatim>\<open>fetch\<close>
  throws, or the response is not 2xx, the result has \<open>isSDN = null\<close>, risk
  \<open>UNKNOWN\<close> and an error message (the thrown message, or
  \<open>SDN check failed:\<close> followed by the status text). If the provider returns the empty
  array, the result has \<open>isSDN = false\<close> and risk \<open>CLEAR\<close>. If it returns an array
  of \<open>k > 0\<close> elements, the result has \<open>isSDN = true\<close>, risk \<open>CRITICAL\<close>,
  \<open>matchCount = k\<close>, and \<open>matches\<close> is that array, all \<open>k\<close> elements of it.
\<close>

theorem checkCustomerAgainstSdn_classifies:
  "(\<forall>e. prov (length log) (check_request env cname fz) = Inl e \<longrightarrow>
      (\<exists>r. fst (checkCustomerAgainstSdn env prov log cname fz) = Fulfilled r \<and>
           customerName r = cname \<and> isSDN r = None \<and> riskLevel r = ''UNKNOWN'' \<and>
           check_error r = Some (error_message e))) \<and>
   (\<forall>resp. prov (length log) (check_request env cname fz) = Inr resp \<and> \<not> ok resp \<longrightarrow>
      (\<exists>r. fst (checkCustomerAgainstSdn env prov log cname fz) = Fulfilled r \<and>
           customerName r = cname \<and> isSDN r = None \<and> riskLevel r = ''UNKNOWN'' \<and>
           check_error r = Some (''SDN check failed: '' @ statusText resp))) \<and>
   (\<forall>resp. prov (length log) (check_request env cname fz) = Inr resp \<and> ok resp \<and>
           json_body resp = Inr (JArray []) \<longrightarrow>
      (\<exists>r. fst (checkCustomerAgainstSdn env prov log cname fz) = Fulfilled r \<and>
           customerName r = cname \<and> isSDN r = Some False \<and> riskLevel r = ''CLEAR'' \<and>
           matchCount r = 0 \<and> check_error r = None)) \<and>
   (\<forall>resp xs. prov (length log) (check_request env cname fz) = Inr resp \<and> ok resp \<and>
           json_body resp = Inr (JArray xs) \<and> xs \<noteq> [] \<longrightarrow>
      (\<exists>r. fst (checkCustomerAgainstSdn env prov log cname fz) = Fulfilled r \<and>
           customerName r = cname \<and> isSDN r = Some True \<and> riskLevel r = ''CRITICAL'' \<and>
           matchCount r = length xs \<and> matches r = JArray xs \<and>
           array_length (matches r) = length xs \<and> check_error r = None))"
  by (simp add: check_eq check_value_def check_try_def check_catch_def)

text \<open>
  The four cases of C1 at concrete providers: one that throws, one that answers 503,
  and one that knows a single sanctioned name, asked for another name and for that one.
\<close>

theorem checkCustomerAgainstSdn_classifies_witness:
  "(\<exists>r. fst (checkCustomerAgainstSdn None unreachable_provider [] ''Jane Doe'' True) = Fulfilled r \<and>
        isSDN r = None \<and> riskLevel r = ''UNKNOWN'' \<and> check_error r = Some ''fetch failed'') \<and>
   (\<exists>r. fst (checkCustomerAgainstSdn None unavailable_provider [] ''Jane Doe'' True) = Fulfilled r \<and>
        isSDN r = None \<and> riskLevel r = ''UNKNOWN'' \<and>
        check_error r = Some ''SDN check failed: Service Unavailable'') \<and>
   (\<exists>r. fst (checkCustomerAgainstSdn None scenario_provider [] ''Jane Doe'' True) = Fulfilled r \<and>
        isSDN r = Some False \<and> riskLevel r = ''CLEAR'' \<and> matchCount r = 0) \<and>
   (\<exists>r. fst (checkCustomerAgainstSdn None scenario_provider [] ''Known Sanctioned Entity'' True) = Fulfilled r \<and>
        isSDN r = Some True \<and> riskLevel r = ''CRITICAL'' \<and> matchCount r = 1 \<and>
        matches r = JArray [record_json example_record])"
  using checkCustomerAgainstSdn_classifies [where prov = unreachable_provider and log = "[]" and env = None
          and cname = "''Jane Doe''" and fz = True]
        checkCustomerAgainstSdn_classifies [where prov = unavailable_provider and log = "[]" and env = None
          and cname = "''Jane Doe''" and fz = True]
        checkCustomerAgainstSdn_classifies [where prov = scenario_provider and log = "[]" and env = None
          and cname = "''Jane Doe''" and fz = True]
        checkCustomerAgainstSdn_classifies [where prov = scenario_provider and log = "[]" and env = None
          and cname = "''Known Sanctioned Entity''" and fz = True]
  by (auto simp: unreachable_provider_def unavailable_provider_def scenario_provider_def
      ok_response_def check_request_def)

text \<open>
  C2. For a non-empty sequence of \<open>n\<close> names, \<^verbatim>\<open>bulkCheckSdn\<close> is fulfilled with
  \<open>totalChecked = n\<close> and \<open>n\<close> results, and the \<open>i\<close>-th result carries the
  \<open>i\<close>-th name, whatever the provider answers and in whatever order the lookups
  complete (\<open>delay\<close> is arbitrary).
\<close>

theorem bulkCheckSdn_index_aligned:
  "ns \<noteq> [] \<Longrightarrow>
   \<exists>b. fst (bulkCheckSdn env prov delay log (Names (map Some ns))) = Fulfilled b \<and>
       totalChecked b = length ns \<and> length (results b) = length ns \<and>
       (\<forall>i<length ns. customerName (results b ! i) = ns ! i)"
  by (simp add: bulk_nonempty bulk_aggregate_def Let_def bulk_values_length bulk_values_nth
      check_value_name)

text \<open>
  C2 at three names whose lookups complete in reverse order.
\<close>

theorem bulkCheckSdn_index_aligned_witness:
  "three_names \<noteq> [] \<and>
   (\<exists>b. fst (bulkCheckSdn None scenario_provider reverse_delay [] (Names (map Some three_names))) =
          Fulfilled b \<and>
        totalChecked b = 3 \<and> length (results b) = 3 \<and>
        customerName (results b ! 0) = ''Jane Doe'' \<and>
        customerName (results b ! 1) = ''Known Sanctioned Entity'' \<and>
        customerName (results b ! 2) = ''John Smith'')"
proof -
  have ne: "three_names \<noteq> []" by (simp add: three_names_def)
  from bulkCheckSdn_index_aligned [OF ne, of None scenario_provider reverse_delay "[]"]
  obtain b where b:
      "fst (bulkCheckSdn None scenario_provider reverse_delay [] (Names (map Some three_names))) =
         Fulfilled b"
      "totalChecked b = length three_names" "length (results b) = length three_names"
      "\<forall>i<length three_names. customerName (results b ! i) = three_names ! i"
    by blast
  from b(4) have "customerName (results b ! 0) = three_names ! 0"
     "customerName (results b ! 1) = three_names ! 1"
     "customerName (results b ! 2) = three_names ! 2"
    by (simp_all add: three_names_def)
  with b(1,2,3) ne show ?thesis by (simp add: three_names_def)
qed

lemma check_value_consistent: "consistent (check_value cname fetched)"
  by (simp add: consistent_def check_value_def check_try_def check_catch_def Let_def
      split: sum.splits)

lemma tally_partition:
  "\<forall>r\<in>set rs. consistent r \<Longrightarrow>
   length (filter (\<lambda>r. isSDN r = Some True) rs) +
   length (filter (\<lambda>r. riskLevel r = ''CLEAR'') rs) +
   length (filter (\<lambda>r. riskLevel r = ''UNKNOWN'') rs) = length rs"
  by (induction rs) (auto simp: consistent_def)

lemma settled_consistent:
  assumes "those (sparse_values env prov log xs) = Some rs"
  shows "\<forall>r\<in>set rs. consistent r"
proof
  fix r assume "r \<in> set rs"
  with those_Some [OF assms] have "Some r \<in> set (sparse_values env prov log xs)" by simp
  from sparse_values_are_checks [OF this] show "consistent r"
    by (auto simp: check_value_consistent)
qed

text \<open>
  C3. In every response \<^verbatim>\<open>bulkCheckSdn\<close> returns with \<open>success = true\<close>, the three
  tallies add up to \<open>totalChecked\<close>, \<open>flaggedCount\<close> equals \<open>summary.critical\<close>
  and counts the entries whose \<open>isSDN\<close> is \<open>true\<close>, \<open>summary.clear\<close> counts the
  entries with risk \<open>CLEAR\<close>, and \<open>summary.unknown\<close> those with risk \<open>UNKNOWN\<close>.
\<close>

theorem bulkCheckSdn_summary_tallies:
  assumes "fst (bulkCheckSdn env prov delay log arg) = Fulfilled b" and "bulk_success b"
  shows "critical (summary b) + clear (summary b) + unknown (summary b) = totalChecked b \<and>
         flaggedCount b = critical (summary b) \<and>
         flaggedCount b = length (filter (\<lambda>r. isSDN r = Some True) (results b)) \<and>
         clear (summary b) = length (filter (\<lambda>r. riskLevel r = ''CLEAR'') (results b)) \<and>
         unknown (summary b) = length (filter (\<lambda>r. riskLevel r = ''UNKNOWN'') (results b))"
proof (cases "arg = NotAnArray \<or> arg = Names []")
  case True
  from bulk_invalid [OF this, of env prov delay log] assms(1)
  have "b = bulk_failure ''customerNames must be a non-empty array''" by auto
  then have "\<not> bulk_success b" by (simp add: bulk_failure_def)
  with assms(2) show ?thesis by simp
next
  case False
  then obtain xs where arg: "arg = Names xs" and ne: "xs \<noteq> []"
    by (cases arg) auto
  show ?thesis
  proof (cases "those (sparse_values env prov log xs)")
    case None
    with assms(1) have "b = bulk_catch undefined_isSDN"
      by (simp add: arg bulk_general [OF ne])
    then have "\<not> bulk_success b" by (simp add: bulk_catch_def bulk_failure_def)
    with assms(2) show ?thesis by simp
  next
    case (Some rs)
    with assms(1) have b: "b = bulk_aggregate rs"
      by (simp add: arg bulk_general [OF ne])
    from tally_partition [OF settled_consistent [OF Some]]
    show ?thesis by (simp add: b bulk_aggregate_def Let_def)
  qed
qed

lemma scenario_values:
  "bulk_values None scenario_provider [] three_names =
     [\<lparr>customerName = ''Jane Doe'', isSDN = Some False, matchCount = 0, matches = JArray [],
       riskLevel = ''CLEAR'', check_error = None\<rparr>,
      \<lparr>customerName = ''Known Sanctioned Entity'', isSDN = Some True, matchCount = 1,
       matches = JArray [record_json example_record], riskLevel = ''CRITICAL'', check_error = None\<rparr>,
      \<lparr>customerName = ''John Smith'', isSDN = Some False, matchCount = 0, matches = JArray [],
       riskLevel = ''CLEAR'', check_error = None\<rparr>]"
  by (simp add: bulk_values_def three_names_def upt_rec check_value_def check_try_def
      scenario_provider_def check_request_def ok_response_def)

text \<open>
  C3 at the three names of which the provider knows the second:
  \<open>flaggedCount = 1\<close> and the summary is \<open>{critical: 1, clear: 2, unknown: 0}\<close>.
\<close>

theorem bulkCheckSdn_summary_tallies_witness:
  "\<exists>b. fst (bulkCheckSdn None scenario_provider reverse_delay [] (Names (map Some three_names))) =
         Fulfilled b \<and>
       bulk_success b \<and> totalChecked b = 3 \<and> flaggedCount b = 1 \<and>
       summary b = \<lparr>critical = 1, clear = 2, unknown = 0\<rparr> \<and>
       critical (summary b) + clear (summary b) + unknown (summary b) = totalChecked b \<and>
       flaggedCount b = critical (summary b) \<and>
       riskLevel (results b ! 1) = ''CRITICAL''"
proof -
  let ?b = "bulk_aggregate (bulk_values None scenario_provider [] three_names)"
  have ne: "three_names \<noteq> []" by (simp add: three_names_def)
  have run: "fst (bulkCheckSdn None scenario_provider reverse_delay [] (Names (map Some three_names))) =
               Fulfilled ?b"
    by (simp add: bulk_nonempty [OF ne])
  have succ: "bulk_success ?b" by (simp add: bulk_aggregate_def Let_def)
  have vals: "totalChecked ?b = 3 \<and> flaggedCount ?b = 1 \<and>
              summary ?b = \<lparr>critical = 1, clear = 2, unknown = 0\<rparr> \<and>
              riskLevel (results ?b ! 1) = ''CRITICAL''"
    by (simp add: bulk_aggregate_def Let_def scenario_values)
  from bulkCheckSdn_summary_tallies [OF run succ] run succ vals show ?thesis by blast
qed

text \<open>
  C5. On an argument that is not an array, or is the empty array, \<^verbatim>\<open>bulkCheckSdn\<close>
  returns the fixed failure shape and issues no request: the log of requests is
  unchanged.
\<close>

theorem bulkCheckSdn_rejects_invalid_input:
  "arg = NotAnArray \<or> arg = Names [] \<Longrightarrow>
   bulkCheckSdn env prov delay log arg =
     (Fulfilled \<lparr>bulk_success = False, totalChecked = 0, flaggedCount = 0, results = [],
                 summary = \<lparr>critical = 0, clear = 0, unknown = 0\<rparr>,
                 bulk_error = Some ''customerNames must be a non-empty array''\<rparr>,
      log)"
  by (auto simp: bulkCheckSdn_def bulk_failure_def)

text \<open>
  C5 at \<^verbatim>\<open>null\<close> and at \<^verbatim>\<open>[]\<close>.
\<close>

theorem bulkCheckSdn_rejects_invalid_input_witness:
  "bulkCheckSdn None scenario_provider reverse_delay [] NotAnArray =
     (Fulfilled \<lparr>bulk_success = False, totalChecked = 0, flaggedCount = 0, results = [],
                 summary = \<lparr>critical = 0, clear = 0, unknown = 0\<rparr>,
                 bulk_error = Some ''customerNames must be a non-empty array''\<rparr>,
      []) \<and>
   bulkCheckSdn None scenario_provider reverse_delay [] (Names []) =
     (Fulfilled \<lparr>bulk_success = False, totalChecked = 0, flaggedCount = 0, results = [],
                 summary = \<lparr>critical = 0, clear = 0, unknown = 0\<rparr>,
                 bulk_error = Some ''customerNames must be a non-empty array''\<rparr>,
      [])"
  using bulkCheckSdn_rejects_invalid_input [of NotAnArray None scenario_provider reverse_delay "[]"]
        bulkCheckSdn_rejects_invalid_input [of "Names []" None scenario_provider reverse_delay "[]"]
  by simp

lemma check_value_failed:
  "lookup_failed fetched \<Longrightarrow>
   isSDN (check_value cname fetched) = None \<and> riskLevel (check_value cname fetched) = ''UNKNOWN'' \<and>
   check_error (check_value cname fetched) \<noteq> None \<and> matches (check_value cname fetched) = JArray [] \<and>
   matchCount (check_value cname fetched) = 0"
  by (auto simp: lookup_failed_def check_value_def check_try_def check_catch_def Let_def
      split: sum.splits)

lemma filter_all: "\<forall>x\<in>set xs. P x \<Longrightarrow> filter P xs = xs"
  by (induction xs) simp_all

lemma filter_none: "\<forall>x\<in>set xs. \<not> P x \<Longrightarrow> filter P xs = []"
  by (induction xs) simp_all

lemma bulk_values_all_failed:
  assumes "\<forall>i<length ns. lookup_failed (prov (length log + i) (check_request env (ns ! i) True))"
  shows "\<forall>r\<in>set (bulk_values env prov log ns). isSDN r = None \<and> riskLevel r = ''UNKNOWN''"
  using assms by (auto simp: bulk_values_def check_value_failed)

text \<open>
  C6 as stated fails. The array \<^verbatim>\<open>['Jane Doe', , 'John Smith']\<close> is a non-empty
  array and passes the validation; both names are looked up; then
  \<^verbatim>\<open>results.filter(r => r.isSDN === true)\<close> throws on the \<^verbatim>\<open>undefined\<close> that
  \<^verbatim>\<open>Promise.all\<close> collected for the hole, and the \<^verbatim>\<open>catch\<close> block returns
  \<open>success = false\<close> with the message of the \<^verbatim>\<open>TypeError\<close>.
\<close>

theorem bulkCheckSdn_fails_on_hole:
  "names_with_hole \<noteq> [] \<and>
   fulfilled_value (fst (bulkCheckSdn None scenario_provider reverse_delay [] (Names names_with_hole))) =
     Some \<lparr>bulk_success = False, totalChecked = 0, flaggedCount = 0, results = [],
            summary = \<lparr>critical = 0, clear = 0, unknown = 0\<rparr>,
            bulk_error = Some (''Cannot read properties of undefined (reading '' @ [CHR 0x27] @
                               ''isSDN'' @ [CHR 0x27] @ '')'')\<rparr> \<and>
   snd (bulkCheckSdn None scenario_provider reverse_delay [] (Names names_with_hole)) =
     [check_request None ''Jane Doe'' True, check_request None ''John Smith'' True]"
proof -
  have h: "None \<in> set names_with_hole" and ne: "names_with_hole \<noteq> []"
    by (simp_all add: names_with_hole_def)
  have 1: "fst (bulkCheckSdn None scenario_provider reverse_delay [] (Names names_with_hole)) =
             Fulfilled (bulk_catch undefined_isSDN)"
    by (rule bulk_hole [OF h])
  have 2: "snd (bulkCheckSdn None scenario_provider reverse_delay [] (Names names_with_hole)) =
             [check_request None ''Jane Doe'' True, check_request None ''John Smith'' True]"
    by (simp add: bulk_general [OF ne]) (simp add: names_with_hole_def check_eq case_prod_beta)
  from 1 2 ne show ?thesis
    by (simp add: bulk_catch_def bulk_failure_def undefined_isSDN_def)
qed

text \<open>
  C6, amended. For a non-empty array whose elements are all names (no hole), the batch
  is fulfilled with \<open>success = true\<close> and no top-level error, however many lookups
  fail. A failed lookup makes its own entry \<open>isSDN = null\<close>, \<open>UNKNOWN\<close>. Every
  entry is what the single check of its name returns at its place in the sequence of
  requests, and it is the same under any other provider and completion order that answer
  this one request the same way: no other lookup affects it. If all \<open>n\<close> lookups
  fail, the summary is \<open>{critical: 0, clear: 0, unknown: n}\<close>.
\<close>

theorem bulkCheckSdn_tolerates_failed_lookups:
  assumes "ns \<noteq> []"
  shows "\<exists>b. fst (bulkCheckSdn env prov delay log (Names (map Some ns))) = Fulfilled b \<and>
           bulk_success b \<and> bulk_error b = None \<and> length (results b) = length ns \<and>
           (\<forall>i<length ns. lookup_failed (prov (length log + i) (check_request env (ns ! i) True)) \<longrightarrow>
                isSDN (results b ! i) = None \<and> riskLevel (results b ! i) = ''UNKNOWN'') \<and>
           (\<forall>i<length ns. Fulfilled (results b ! i) =
                fst (checkCustomerAgainstSdn env prov
                       (log @ map (\<lambda>n. check_request env n True) (take i ns)) (ns ! i) True)) \<and>
           (\<forall>i<length ns. \<forall>prov' delay'.
                prov' (length log + i) (check_request env (ns ! i) True) =
                prov (length log + i) (check_request env (ns ! i) True) \<longrightarrow>
                (\<exists>b'. fst (bulkCheckSdn env prov' delay' log (Names (map Some ns))) = Fulfilled b' \<and>
                      results b' ! i = results b ! i)) \<and>
           ((\<forall>i<length ns. lookup_failed (prov (length log + i) (check_request env (ns ! i) True))) \<longrightarrow>
                summary b = \<lparr>critical = 0, clear = 0, unknown = length ns\<rparr>)"
proof -
  let ?b = "bulk_aggregate (bulk_values env prov log ns)"
  have run: "fst (bulkCheckSdn env prov delay log (Names (map Some ns))) = Fulfilled ?b"
    by (simp add: bulk_nonempty [OF assms])
  have res: "results ?b = bulk_values env prov log ns"
    by (simp add: bulk_aggregate_def Let_def)
  have ok: "bulk_success ?b \<and> bulk_error ?b = None \<and> length (results ?b) = length ns"
    by (simp add: bulk_aggregate_def Let_def bulk_values_length)
  have failed: "\<forall>i<length ns. lookup_failed (prov (length log + i) (check_request env (ns ! i) True)) \<longrightarrow>
                isSDN (results ?b ! i) = None \<and> riskLevel (results ?b ! i) = ''UNKNOWN''"
    by (simp add: res bulk_values_nth check_value_failed)
  have single: "\<forall>i<length ns. Fulfilled (results ?b ! i) =
                fst (checkCustomerAgainstSdn env prov
                       (log @ map (\<lambda>n. check_request env n True) (take i ns)) (ns ! i) True)"
    by (simp add: res bulk_values_nth check_eq min_def)
  have indep: "\<forall>i<length ns. \<forall>prov' delay'.
                prov' (length log + i) (check_request env (ns ! i) True) =
                prov (length log + i) (check_request env (ns ! i) True) \<longrightarrow>
                (\<exists>b'. fst (bulkCheckSdn env prov' delay' log (Names (map Some ns))) = Fulfilled b' \<and>
                      results b' ! i = results ?b ! i)"
    by (simp add: bulk_nonempty [OF assms] bulk_aggregate_def Let_def bulk_values_nth)
  have allfail: "(\<forall>i<length ns. lookup_failed (prov (length log + i) (check_request env (ns ! i) True))) \<longrightarrow>
                summary ?b = \<lparr>critical = 0, clear = 0, unknown = length ns\<rparr>"
  proof
    assume a: "\<forall>i<length ns. lookup_failed (prov (length log + i) (check_request env (ns ! i) True))"
    note u = bulk_values_all_failed [OF a]
    have "filter (\<lambda>r. isSDN r = Some True) (bulk_values env prov log ns) = []"
      by (rule filter_none) (simp add: u)
    moreover have "filter (\<lambda>r. riskLevel r = ''CLEAR'') (bulk_values env prov log ns) = []"
      by (rule filter_none) (simp add: u)
    moreover have "filter (\<lambda>r. riskLevel r = ''UNKNOWN'') (bulk_values env prov log ns) =
                   bulk_values env prov log ns"
      by (rule filter_all) (simp add: u)
    ultimately show "summary ?b = \<lparr>critical = 0, clear = 0, unknown = length ns\<rparr>"
      by (simp add: bulk_aggregate_def Let_def bulk_values_length)
  qed
  from run ok failed single indep allfail show ?thesis by blast
qed

text \<open>
  C6, amended, at three names and a provider that cannot be reached.
\<close>

theorem bulkCheckSdn_tolerates_failed_lookups_witness:
  "three_names \<noteq> [] \<and>
   (\<exists>b. fst (bulkCheckSdn None unreachable_provider reverse_delay [] (Names (map Some three_names))) =
          Fulfilled b \<and>
        bulk_success b \<and> length (results b) = 3 \<and>
        isSDN (results b ! 0) = None \<and> isSDN (results b ! 1) = None \<and> isSDN (results b ! 2) = None \<and>
        summary b = \<lparr>critical = 0, clear = 0, unknown = 3\<rparr>)"
proof -
  have ne: "three_names \<noteq> []" by (simp add: three_names_def)
  have f: "\<And>k q. lookup_failed (unreachable_provider k q)"
    by (simp add: lookup_failed_def unreachable_provider_def)
  from bulkCheckSdn_tolerates_failed_lookups [OF ne, of None unreachable_provider reverse_delay "[]"]
  show ?thesis using ne by (auto simp: f three_names_def)
qed

subsection \<open>The results of the two lookups, case by case\<close>

lemma getSdnData_eq:
  "getSdnData env prov log name_arg country limit_arg =
     (Fulfilled (lookup_value (prov (length log) (getSdnData_request env name_arg country limit_arg))),
      log @ [getSdnData_request env name_arg country limit_arg])"
  by (simp add: getSdnData_def fetch_def lookup_value_def split: sum.splits)

lemma lookup_value_thrown:
  "lookup_value (Inl e) =
     \<lparr>success = False, data = JArray [], count = 0, error = Some (error_message e)\<rparr>"
  by (simp add: lookup_value_def getSdnData_try_def getSdnData_catch_def)

lemma lookup_value_not_ok:
  "\<not> ok resp \<Longrightarrow>
   lookup_value (Inr resp) =
     \<lparr>success = False, data = JArray [], count = 0,
      error = Some (''SDN API request failed: '' @ statusText resp)\<rparr>"
  by (simp add: lookup_value_def getSdnData_try_def getSdnData_catch_def)

lemma lookup_value_not_json:
  "ok resp \<Longrightarrow> json_body resp = Inl e \<Longrightarrow>
   lookup_value (Inr resp) =
     \<lparr>success = False, data = JArray [], count = 0, error = Some (error_message e)\<rparr>"
  by (simp add: lookup_value_def getSdnData_try_def getSdnData_catch_def)

lemma lookup_value_array:
  "ok resp \<Longrightarrow> json_body resp = Inr (JArray xs) \<Longrightarrow>
   lookup_value (Inr resp) =
     \<lparr>success = True, data = JArray xs, count = length xs, error = None\<rparr>"
  by (simp add: lookup_value_def getSdnData_try_def)

lemma lookup_value_other:
  "ok resp \<Longrightarrow> json_body resp = Inr v \<Longrightarrow> \<not> isArray v \<Longrightarrow>
   lookup_value (Inr resp) = \<lparr>success = True, data = v, count = 0, error = None\<rparr>"
  by (simp add: lookup_value_def getSdnData_try_def)

lemma check_value_thrown:
  "check_value cname (Inl e) =
     \<lparr>customerName = cname, isSDN = None, matchCount = 0, matches = JArray [],
      riskLevel = ''UNKNOWN'', check_error = Some (error_message e)\<rparr>"
  by (simp add: check_value_def check_try_def check_catch_def)

lemma check_value_not_ok:
  "\<not> ok resp \<Longrightarrow>
   check_value cname (Inr resp) =
     \<lparr>customerName = cname, isSDN = None, matchCount = 0, matches = JArray [],
      riskLevel = ''UNKNOWN'', check_error = Some (''SDN check failed: '' @ statusText resp)\<rparr>"
  by (simp add: check_value_def check_try_def check_catch_def)

lemma check_value_not_json:
  "ok resp \<Longrightarrow> json_body resp = Inl e \<Longrightarrow>
   check_value cname (Inr resp) =
     \<lparr>customerName = cname, isSDN = None, matchCount = 0, matches = JArray [],
      riskLevel = ''UNKNOWN'', check_error = Some (error_message e)\<rparr>"
  by (simp add: check_value_def check_try_def check_catch_def)

lemma check_value_array:
  "ok resp \<Longrightarrow> json_body resp = Inr (JArray xs) \<Longrightarrow>
   check_value cname (Inr resp) =
     \<lparr>customerName = cname, isSDN = Some (xs \<noteq> []), matchCount = length xs,
      matches = JArray xs, riskLevel = (if xs \<noteq> [] then ''CRITICAL'' else ''CLEAR''),
      check_error = None\<rparr>"
  by (simp add: check_value_def check_try_def)

lemma check_value_other:
  "ok resp \<Longrightarrow> json_body resp = Inr v \<Longrightarrow> \<not> isArray v \<Longrightarrow>
   check_value cname (Inr resp) =
     \<lparr>customerName = cname, isSDN = Some False, matchCount = 0, matches = v,
      riskLevel = ''CLEAR'', check_error = None\<rparr>"
  by (simp add: check_value_def check_try_def)

text \<open>A record as the provider sends it has the declared shape.\<close>

lemma is_SdnRecord_record_json: "is_SdnRecord (record_json r)"
  by (simp add: record_json_def record_fields_def)

text \<open>
  C4. The provider answers 200 with the JSON object \<^verbatim>\<open>{"error": "rate limited"}\<close>.
  \<^verbatim>\<open>getSdnData\<close> returns \<open>success = true\<close> and \<open>count = 0\<close>, but \<open>data\<close> is the
  object itself, not the empty array: only \<open>count\<close> is guarded by
  \<^verbatim>\<open>Array.isArray\<close>.
\<close>

theorem getSdnData_keeps_non_array_payload:
  "getSdnData None object_provider [] (Some ''Jane Doe'') None None =
     (Fulfilled \<lparr>success = True, data = JObject [(''error'', JString ''rate limited'')],
                 count = 0, error = None\<rparr>,
      [getSdnData_request None (Some ''Jane Doe'') None None]) \<and>
   JObject [(''error'', JString ''rate limited'')] \<noteq> JArray []"
  by (simp add: getSdnData_eq lookup_value_def getSdnData_try_def object_provider_def
      ok_response_def)

text \<open>
  C9. When the provider answers 2xx with a JSON value that is not an array,
  \<^verbatim>\<open>checkCustomerAgainstSdn\<close> returns \<open>isSDN = false\<close>, risk \<open>CLEAR\<close>,
  \<open>matchCount = 0\<close> and no error, and \<open>matches\<close> is the payload as it came, not the
  empty array.
\<close>

theorem checkCustomerAgainstSdn_non_array_is_clear:
  "prov (length log) (check_request env cname fz) = Inr resp \<Longrightarrow> ok resp \<Longrightarrow>
   json_body resp = Inr v \<Longrightarrow> \<not> isArray v \<Longrightarrow>
   \<exists>r. fst (checkCustomerAgainstSdn env prov log cname fz) = Fulfilled r \<and>
       customerName r = cname \<and> isSDN r = Some False \<and> riskLevel r = ''CLEAR'' \<and>
       matchCount r = 0 \<and> check_error r = None \<and> matches r = v \<and> matches r \<noteq> JArray []"
  by (cases v) (simp_all add: check_eq check_value_def check_try_def)

text \<open>
  C9 at a provider that answers 200 with a JSON object.
\<close>

theorem checkCustomerAgainstSdn_non_array_is_clear_witness:
  "object_provider 0 (check_request None ''Jane Doe'' True) =
     Inr (ok_response (JObject [(''error'', JString ''rate limited'')])) \<and>
   ok (ok_response (JObject [(''error'', JString ''rate limited'')])) \<and>
   \<not> isArray (JObject [(''error'', JString ''rate limited'')]) \<and>
   (\<exists>r. fst (checkCustomerAgainstSdn None object_provider [] ''Jane Doe'' True) = Fulfilled r \<and>
        isSDN r = Some False \<and> riskLevel r = ''CLEAR'' \<and> matchCount r = 0 \<and>
        check_error r = None \<and> matches r = JObject [(''error'', JString ''rate limited'')])"
proof -
  have a: "object_provider (length ([] :: request list)) (check_request None ''Jane Doe'' True) =
             Inr (ok_response (JObject [(''error'', JString ''rate limited'')]))"
    by (simp add: object_provider_def)
  have b: "ok (ok_response (JObject [(''error'', JString ''rate limited'')]))"
    by (simp add: ok_response_def)
  have c: "json_body (ok_response (JObject [(''error'', JString ''rate limited'')])) =
             Inr (JObject [(''error'', JString ''rate limited'')])"
    by (simp add: ok_response_def)
  have d: "\<not> isArray (JObject [(''error'', JString ''rate limited'')])" by simp
  from checkCustomerAgainstSdn_non_array_is_clear
         [where prov = object_provider and log = "[]" and env = None and fz = True, OF a b c d] a b d
  show ?thesis by auto
qed

subsection \<open>No operation is rejected\<close>

lemma getSdnData_records_failure:
  "\<exists>r. fst (getSdnData env prov log name_arg country limit_arg) = Fulfilled r \<and>
     (\<forall>e. prov (length log) (getSdnData_request env name_arg country limit_arg) = Inl e \<longrightarrow>
        r = \<lparr>success = False, data = JArray [], count = 0, error = Some (error_message e)\<rparr>) \<and>
     (\<forall>resp. prov (length log) (getSdnData_request env name_arg country limit_arg) = Inr resp \<and>
        \<not> ok resp \<longrightarrow>
        r = \<lparr>success = False, data = JArray [], count = 0,
             error = Some (''SDN API request failed: '' @ statusText resp)\<rparr>) \<and>
     (\<forall>resp e. prov (length log) (getSdnData_request env name_arg country limit_arg) = Inr resp \<and>
        ok resp \<and> json_body resp = Inl e \<longrightarrow>
        r = \<lparr>success = False, data = JArray [], count = 0, error = Some (error_message e)\<rparr>) \<and>
     (\<forall>resp xs. prov (length log) (getSdnData_request env name_arg country limit_arg) = Inr resp \<and>
        ok resp \<and> json_body resp = Inr (JArray xs) \<longrightarrow>
        r = \<lparr>success = True, data = JArray xs, count = length xs, error = None\<rparr>) \<and>
     (\<forall>resp v. prov (length log) (getSdnData_request env name_arg country limit_arg) = Inr resp \<and>
        ok resp \<and> json_body resp = Inr v \<and> \<not> isArray v \<longrightarrow>
        success r \<and> count r = 0 \<and> error r = None)"
  by (auto simp: getSdnData_eq lookup_value_thrown lookup_value_not_ok lookup_value_not_json
      lookup_value_array lookup_value_other)

lemma check_records_failure:
  "\<exists>r. fst (checkCustomerAgainstSdn env prov log cname fz) = Fulfilled r \<and>
     (\<forall>e. prov (length log) (check_request env cname fz) = Inl e \<longrightarrow>
        r = \<lparr>customerName = cname, isSDN = None, matchCount = 0, matches = JArray [],
             riskLevel = ''UNKNOWN'', check_error = Some (error_message e)\<rparr>) \<and>
     (\<forall>resp. prov (length log) (check_request env cname fz) = Inr resp \<and> \<not> ok resp \<longrightarrow>
        r = \<lparr>customerName = cname, isSDN = None, matchCount = 0, matches = JArray [],
             riskLevel = ''UNKNOWN'',
             check_error = Some (''SDN check failed: '' @ statusText resp)\<rparr>) \<and>
     (\<forall>resp e. prov (length log) (check_request env cname fz) = Inr resp \<and> ok resp \<and>
        json_body resp = Inl e \<longrightarrow>
        r = \<lparr>customerName = cname, isSDN = None, matchCount = 0, matches = JArray [],
             riskLevel = ''UNKNOWN'', check_error = Some (error_message e)\<rparr>) \<and>
     (\<forall>resp xs. prov (length log) (check_request env cname fz) = Inr resp \<and> ok resp \<and>
        json_body resp = Inr (JArray xs) \<longrightarrow>
        r = \<lparr>customerName = cname, isSDN = Some (xs \<noteq> []), matchCount = length xs,
             matches = JArray xs, riskLevel = (if xs \<noteq> [] then ''CRITICAL'' else ''CLEAR''),
             check_error = None\<rparr>) \<and>
     (\<forall>resp v. prov (length log) (check_request env cname fz) = Inr resp \<and> ok resp \<and>
        json_body resp = Inr v \<and> \<not> isArray v \<longrightarrow>
        customerName r = cname \<and> isSDN r = Some False \<and> matchCount r = 0 \<and>
        riskLevel r = ''CLEAR'' \<and> check_error r = None)"
  by (auto simp: check_eq check_value_thrown check_value_not_ok check_value_not_json
      check_value_array check_value_other)

lemma bulk_records_failure:
  "\<exists>b. fst (bulkCheckSdn env prov delay log arg) = Fulfilled b \<and>
     (arg = NotAnArray \<or> arg = Names [] \<longrightarrow>
        b = \<lparr>bulk_success = False, totalChecked = 0, flaggedCount = 0, results = [],
             summary = \<lparr>critical = 0, clear = 0, unknown = 0\<rparr>,
             bulk_error = Some ''customerNames must be a non-empty array''\<rparr>) \<and>
     (\<forall>xs. arg = Names xs \<and> None \<in> set xs \<longrightarrow>
        b = \<lparr>bulk_success = False, totalChecked = 0, flaggedCount = 0, results = [],
             summary = \<lparr>critical = 0, clear = 0, unknown = 0\<rparr>,
             bulk_error = Some (error_message undefined_isSDN)\<rparr>) \<and>
     (\<forall>ns. arg = Names (map Some ns) \<and> ns \<noteq> [] \<longrightarrow>
        bulk_success b \<and> bulk_error b = None \<and> length (results b) = length ns \<and>
        (\<forall>i<length ns. Fulfilled (results b ! i) =
           fst (checkCustomerAgainstSdn env prov
                  (log @ map (\<lambda>n. check_request env n True) (take i ns)) (ns ! i) True)))"
proof (cases "arg = NotAnArray \<or> arg = Names []")
  case True
  from bulk_invalid [OF this, of env prov delay log] True show ?thesis
    by (auto simp: bulk_failure_def)
next
  case False
  then obtain xs where arg: "arg = Names xs" and ne: "xs \<noteq> []"
    by (cases arg) auto
  show ?thesis
  proof (cases "None \<in> set xs")
    case True
    have "map Some ns \<noteq> xs" for ns using True by auto
    with bulk_hole [OF True, of env prov delay log] arg ne True show ?thesis
      by (auto simp: bulk_catch_def bulk_failure_def)
  next
    case False
    have "\<exists>ns. xs = map Some ns"
    proof
      from False show "xs = map Some (map the xs)"
        by (induction xs) auto
    qed
    then obtain ns where xs: "xs = map Some ns" by blast
    with ne have ns: "ns \<noteq> []" by auto
    have inj: "map Some ns' = map Some ns \<longleftrightarrow> ns' = ns" for ns' :: "string list"
      by (simp add: inj_map_eq_map)
    show ?thesis using False
      by (simp add: arg xs ns inj bulk_nonempty [OF ns] bulk_aggregate_def Let_def
          bulk_values_length bulk_values_nth check_eq min_def)
  qed
qed

text \<open>
  C7 as stated fails in one respect: the result is not always of its declared shape.
  The payload of a 2xx answer is cast to \<^verbatim>\<open>SdnRecord[]\<close> and never inspected, so when
  the provider answers with an array whose one element has only an \<open>id\<close>, the result
  of \<^verbatim>\<open>getSdnData\<close> holds that array in \<open>data\<close> and the result of
  \<^verbatim>\<open>checkCustomerAgainstSdn\<close> holds it in \<open>matches\<close>. The object of C4 in
  \<open>data\<close> is the same breach.
\<close>

theorem result_not_of_declared_shape:
  "map_option (is_SdnRecord_array \<circ> data)
     (fulfilled_value (fst (getSdnData None partial_record_provider [] (Some ''Jane Doe'') None None))) =
     Some False \<and>
   map_option (is_SdnRecord_array \<circ> matches)
     (fulfilled_value (fst (checkCustomerAgainstSdn None partial_record_provider [] ''Jane Doe'' True))) =
     Some False \<and>
   map_option (is_SdnRecord_array \<circ> data)
     (fulfilled_value (fst (getSdnData None object_provider [] (Some ''Jane Doe'') None None))) =
     Some False"
  by (simp add: getSdnData_eq check_eq lookup_value_def getSdnData_try_def check_value_def
      check_try_def partial_record_provider_def object_provider_def ok_response_def
      record_fields_def)

text \<open>
  C7, amended. Each of the three operations is fulfilled with a result, for every input
  and every provider; none is rejected. A failure is recorded in the result, with its
  message. For \<^verbatim>\<open>getSdnData\<close> and \<^verbatim>\<open>checkCustomerAgainstSdn\<close>: when \<^verbatim>\<open>fetch\<close>
  throws, the response is not 2xx, or the body is not JSON, the result is
  \<open>success = false\<close> (or \<open>isSDN = null\<close>, \<open>UNKNOWN\<close>) with empty data and count 0,
  and the error field holds the thrown message, or \<open>SDN API request failed:\<close> (or
  \<open>SDN check failed:\<close>) followed by the status text. On a 2xx answer with a JSON
  array the result holds that array as it came, its length and no error, so it has the
  declared shape when the provider's array has; on a 2xx answer with another JSON value
  the result has no error and count 0. For \<^verbatim>\<open>bulkCheckSdn\<close>: an argument that is not
  an array or is empty gives \<open>success = false\<close> with the validation message, an array
  with a hole gives \<open>success = false\<close> with the message of the \<^verbatim>\<open>TypeError\<close>, and
  an array of names gives \<open>success = true\<close> with, for each name, the result of its
  single check, failed or not.
\<close>

theorem no_error_escapes:
  "(\<exists>r. fst (getSdnData env prov log name_arg country limit_arg) = Fulfilled r \<and>
     (\<forall>e. prov (length log) (getSdnData_request env name_arg country limit_arg) = Inl e \<longrightarrow>
        r = \<lparr>success = False, data = JArray [], count = 0, error = Some (error_message e)\<rparr>) \<and>
     (\<forall>resp. prov (length log) (getSdnData_request env name_arg country limit_arg) = Inr resp \<and>
        \<not> ok resp \<longrightarrow>
        r = \<lparr>success = False, data = JArray [], count = 0,
             error = Some (''SDN API request failed: '' @ statusText resp)\<rparr>) \<and>
     (\<forall>resp e. prov (length log) (getSdnData_request env name_arg country limit_arg) = Inr resp \<and>
        ok resp \<and> json_body resp = Inl e \<longrightarrow>
        r = \<lparr>success = False, data = JArray [], count = 0, error = Some (error_message e)\<rparr>) \<and>
     (\<forall>resp xs. prov (length log) (getSdnData_request env name_arg country limit_arg) = Inr resp \<and>
        ok resp \<and> json_body resp = Inr (JArray xs) \<longrightarrow>
        r = \<lparr>success = True, data = JArray xs, count = length xs, error = None\<rparr>) \<and>
     (\<forall>resp v. prov (length log) (getSdnData_request env name_arg country limit_arg) = Inr resp \<and>
        ok resp \<and> json_body resp = Inr v \<and> \<not> isArray v \<longrightarrow>
        success r \<and> count r = 0 \<and> error r = None)) \<and>
   (\<exists>r. fst (checkCustomerAgainstSdn env prov log cname fz) = Fulfilled r \<and>
     (\<forall>e. prov (length log) (check_request env cname fz) = Inl e \<longrightarrow>
        r = \<lparr>customerName = cname, isSDN = None, matchCount = 0, matches = JArray [],
             riskLevel = ''UNKNOWN'', check_error = Some (error_message e)\<rparr>) \<and>
     (\<forall>resp. prov (length log) (check_request env cname fz) = Inr resp \<and> \<not> ok resp \<longrightarrow>
        r = \<lparr>customerName = cname, isSDN = None, matchCount = 0, matches = JArray [],
             riskLevel = ''UNKNOWN'',
             check_error = Some (''SDN check failed: '' @ statusText resp)\<rparr>) \<and>
     (\<forall>resp e. prov (length log) (check_request env cname fz) = Inr resp \<and> ok resp \<and>
        json_body resp = Inl e \<longrightarrow>
        r = \<lparr>customerName = cname, isSDN = None, matchCount = 0, matches = JArray [],
             riskLevel = ''UNKNOWN'', check_error = Some (error_message e)\<rparr>) \<and>
     (\<forall>resp xs. prov (length log) (check_request env cname fz) = Inr resp \<and> ok resp \<and>
        json_body resp = Inr (JArray xs) \<longrightarrow>
        r = \<lparr>customerName = cname, isSDN = Some (xs \<noteq> []), matchCount = length xs,
             matches = JArray xs, riskLevel = (if xs \<noteq> [] then ''CRITICAL'' else ''CLEAR''),
             check_error = None\<rparr>) \<and>
     (\<forall>resp v. prov (length log) (check_request env cname fz) = Inr resp \<and> ok resp \<and>
        json_body resp = Inr v \<and> \<not> isArray v \<longrightarrow>
        customerName r = cname \<and> isSDN r = Some False \<and> matchCount r = 0 \<and>
        riskLevel r = ''CLEAR'' \<and> check_error r = None)) \<and>
   (\<exists>b. fst (bulkCheckSdn env prov delay log arg) = Fulfilled b \<and>
     (arg = NotAnArray \<or> arg = Names [] \<longrightarrow>
        b = \<lparr>bulk_success = False, totalChecked = 0, flaggedCount = 0, results = [],
             summary = \<lparr>critical = 0, clear = 0, unknown = 0\<rparr>,
             bulk_error = Some ''customerNames must be a non-empty array''\<rparr>) \<and>
     (\<forall>xs. arg = Names xs \<and> None \<in> set xs \<longrightarrow>
        b = \<lparr>bulk_success = False, totalChecked = 0, flaggedCount = 0, results = [],
             summary = \<lparr>critical = 0, clear = 0, unknown = 0\<rparr>,
             bulk_error = Some (error_message undefined_isSDN)\<rparr>) \<and>
     (\<forall>ns. arg = Names (map Some ns) \<and> ns \<noteq> [] \<longrightarrow>
        bulk_success b \<and> bulk_error b = None \<and> length (results b) = length ns \<and>
        (\<forall>i<length ns. Fulfilled (results b ! i) =
           fst (checkCustomerAgainstSdn env prov
                  (log @ map (\<lambda>n. check_request env n True) (take i ns)) (ns ! i) True))))"
  by (intro conjI getSdnData_records_failure check_records_failure bulk_records_failure)

text \<open>
  C7, amended, at a provider that answers 503, at one that cannot be reached, and at the
  array with a hole.
\<close>

theorem no_error_escapes_witness:
  "(\<exists>r. fst (getSdnData None unavailable_provider [] (Some ''Jane Doe'') None None) = Fulfilled r \<and>
        r = \<lparr>success = False, data = JArray [], count = 0,
             error = Some ''SDN API request failed: Service Unavailable''\<rparr>) \<and>
   (\<exists>r. fst (checkCustomerAgainstSdn None unavailable_provider [] ''Jane Doe'' True) = Fulfilled r \<and>
        r = \<lparr>customerName = ''Jane Doe'', isSDN = None, matchCount = 0, matches = JArray [],
             riskLevel = ''UNKNOWN'',
             check_error = Some ''SDN check failed: Service Unavailable''\<rparr>) \<and>
   (\<exists>b. fst (bulkCheckSdn None unavailable_provider reverse_delay [] (Names names_with_hole)) =
          Fulfilled b \<and>
        \<not> bulk_success b \<and> bulk_error b = Some (error_message undefined_isSDN))"
proof -
  have h: "None \<in> set names_with_hole" by (simp add: names_with_hole_def)
  from no_error_escapes [of None unavailable_provider "[]" "Some ''Jane Doe''" None None
      "''Jane Doe''" True reverse_delay "Names names_with_hole"]
  show ?thesis
    by (simp add: unavailable_provider_def h)
qed

subsection \<open>The limit as a string\<close>

lemma int_of_default_limit: "int_of default_limit = 100"
  by (simp add: default_limit_def safe_integer_of_inverse)

lemma int_of_bound: "\<bar>int_of l\<bar> < 2 ^ 53"
  using int_of [of l] by simp

lemma digit_value_digit_char: "d < 10 \<Longrightarrow> digit_value (digit_char d) = d"
  by (simp add: digit_value_def digit_char_def)

lemma digit_char_not_minus: "d < 10 \<Longrightarrow> digit_char d \<noteq> CHR ''-''"
proof
  assume d: "d < 10" and eq: "digit_char d = CHR ''-''"
  from eq have "of_char (digit_char d) = (of_char (CHR ''-'') :: nat)" by simp
  with d show False by (simp add: digit_char_def)
qed

lemma read_nat_snoc: "read_nat (s @ [c]) = 10 * read_nat s + digit_value c"
  by (simp add: read_nat_def)

lemma read_nat_digits: "read_nat (decimal_digits n) = n"
proof (induction n rule: decimal_digits.induct)
  case (1 n)
  show ?case
  proof (cases "n < 10")
    case True
    then show ?thesis
      by (simp add: decimal_digits.simps [of n] read_nat_def digit_value_digit_char)
  next
    case False
    with 1 have "read_nat (decimal_digits (n div 10)) = n div 10" by simp
    with False show ?thesis
      by (simp add: decimal_digits.simps [of n] read_nat_snoc digit_value_digit_char)
  qed
qed

lemma decimal_digits_head:
  "\<exists>d cs. d < 10 \<and> decimal_digits n = digit_char d # cs"
proof (induction n rule: decimal_digits.induct)
  case (1 n)
  show ?case
  proof (cases "n < 10")
    case True
    then show ?thesis by (auto simp: decimal_digits.simps [of n])
  next
    case False
    with 1 obtain d cs where "d < 10" "decimal_digits (n div 10) = digit_char d # cs" by blast
    with False show ?thesis by (auto simp: decimal_digits.simps [of n])
  qed
qed

lemma read_number_toString: "read_number (number_toString l) = int_of l"
proof (cases "int_of l < 0")
  case True
  then show ?thesis by (simp add: number_toString_def read_nat_digits)
next
  case False
  obtain d cs where d: "d < 10" and s: "decimal_digits (nat (int_of l)) = digit_char d # cs"
    using decimal_digits_head by blast
  have "read_number (decimal_digits (nat (int_of l))) =
          int (read_nat (decimal_digits (nat (int_of l))))"
    by (simp add: s digit_char_not_minus [OF d])
  with False show ?thesis by (simp add: number_toString_def read_nat_digits)
qed

text \<open>The digits of concrete numbers, by unfolding the recursion.\<close>

lemma digit_chars:
  "digit_char 0 = CHR ''0''" "digit_char 1 = CHR ''1''" "digit_char 2 = CHR ''2''"
  "digit_char 3 = CHR ''3''" "digit_char 4 = CHR ''4''" "digit_char 5 = CHR ''5''"
  "digit_char 6 = CHR ''6''" "digit_char 7 = CHR ''7''" "digit_char 8 = CHR ''8''"
  "digit_char 9 = CHR ''9''" "digit_char (Suc 0) = CHR ''1''"
  by code_simp+

lemma number_toString_default: "number_toString default_limit = ''100''"
  by (simp add: number_toString_def int_of_default_limit decimal_digits.simps digit_chars)

subsection \<open>The single check and the lookup\<close>

text \<open>
  C8 as stated fails. \<^verbatim>\<open>checkCustomerAgainstSdn\<close> does not call \<^verbatim>\<open>getSdnData\<close>:
  it sends \<open>name\<close> and \<open>fuzzy=true\<close>, while \<^verbatim>\<open>getSdnData\<close> sends \<open>name\<close> and
  \<open>limit=100\<close> and has no way to ask for fuzzy matching. A provider that finds the
  misspelt name only under fuzzy matching makes the check \<open>CRITICAL\<close> and the decision
  rule on the lookup \<open>CLEAR\<close>.
\<close>

theorem check_differs_from_lookup_rule:
  "map_option classification
     (fulfilled_value (fst (checkCustomerAgainstSdn None fuzzy_only_provider []
        ''Known Sanctoned Entity'' True))) = Some (Some True, ''CRITICAL'') \<and>
   map_option spec_decision_rule
     (fulfilled_value (fst (getSdnData None fuzzy_only_provider []
        (Some ''Known Sanctoned Entity'') None None))) = Some (Some False, ''CLEAR'') \<and>
   map_option classification
     (fulfilled_value (fst (checkCustomerAgainstSdn None fuzzy_only_provider []
        ''Known Sanctoned Entity'' True))) \<noteq>
   map_option spec_decision_rule
     (fulfilled_value (fst (getSdnData None fuzzy_only_provider []
        (Some ''Known Sanctoned Entity'') None None)))"
  by (simp add: check_eq getSdnData_eq classification_def spec_decision_rule_def
      check_value_def check_try_def lookup_value_def getSdnData_try_def fuzzy_only_provider_def
      ok_response_def check_request_def getSdnData_request_def getSdnData_params_def
      int_of_default_limit)

lemma rule_on_equal_answers:
  "classification (check_value cname fetched) = spec_decision_rule (lookup_value fetched) \<and>
   matchCount (check_value cname fetched) = count (lookup_value fetched) \<and>
   matches (check_value cname fetched) = data (lookup_value fetched) \<and>
   (check_error (check_value cname fetched) = None \<longleftrightarrow> error (lookup_value fetched) = None)"
proof (cases fetched)
  case (Inl e)
  then show ?thesis
    by (simp add: classification_def spec_decision_rule_def check_value_def check_try_def
        check_catch_def lookup_value_def getSdnData_try_def getSdnData_catch_def)
next
  case (Inr resp)
  show ?thesis
  proof (cases "json_body resp")
    case (Inl e)
    with Inr show ?thesis
      by (simp add: classification_def spec_decision_rule_def check_value_def check_try_def
          check_catch_def lookup_value_def getSdnData_try_def getSdnData_catch_def)
  next
    case (Inr v)
    with \<open>fetched = Inr resp\<close> show ?thesis
      by (cases v)
         (simp_all add: classification_def spec_decision_rule_def check_value_def check_try_def
            check_catch_def lookup_value_def getSdnData_try_def getSdnData_catch_def)
  qed
qed

text \<open>
  C8, amended. \<^verbatim>\<open>checkCustomerAgainstSdn\<close> issues one request of its own, with the
  name always and \<open>fuzzy=true\<close> exactly when the flag is set. Whenever the provider
  answers that request as it answers the request of \<^verbatim>\<open>getSdnData\<close> for the same name,
  the check's match flag and risk are those of the decision rule on the lookup result,
  its \<open>matchCount\<close> and \<open>matches\<close> are the lookup's \<open>count\<close> and \<open>data\<close>, and
  it carries an error exactly when the lookup does.
\<close>

theorem check_agrees_with_lookup_on_equal_answers:
  assumes "prov (length log) (check_request env cname fz) =
           prov (length log') (getSdnData_request env (Some cname) country limit_arg)"
  shows "\<exists>r lr. fst (checkCustomerAgainstSdn env prov log cname fz) = Fulfilled r \<and>
           fst (getSdnData env prov log' (Some cname) country limit_arg) = Fulfilled lr \<and>
           classification r = spec_decision_rule lr \<and>
           matchCount r = count lr \<and> matches r = data lr \<and>
           (check_error r = None \<longleftrightarrow> error lr = None) \<and>
           snd (checkCustomerAgainstSdn env prov log cname fz) = log @ [check_request env cname fz] \<and>
           req_params (check_request env cname fz) =
             (''name'', cname) # (if fz then [(''fuzzy'', ''true'')] else [])"
  using rule_on_equal_answers [of cname "prov (length log) (check_request env cname fz)"]
  by (simp add: check_eq getSdnData_eq assms [symmetric]) (simp add: check_request_def)

text \<open>
  C8, amended, at a provider that looks at the name only.
\<close>

theorem check_agrees_with_lookup_on_equal_answers_witness:
  "scenario_provider 0 (check_request None ''Known Sanctioned Entity'' True) =
   scenario_provider 0 (getSdnData_request None (Some ''Known Sanctioned Entity'') None None) \<and>
   (\<exists>r lr. fst (checkCustomerAgainstSdn None scenario_provider [] ''Known Sanctioned Entity'' True) = Fulfilled r \<and>
        fst (getSdnData None scenario_provider [] (Some ''Known Sanctioned Entity'') None None) = Fulfilled lr \<and>
        classification r = spec_decision_rule lr \<and> matchCount r = count lr \<and> matches r = data lr)"
proof -
  have a: "scenario_provider (length ([] :: request list)) (check_request None ''Known Sanctioned Entity'' True) =
           scenario_provider (length ([] :: request list))
             (getSdnData_request None (Some ''Known Sanctioned Entity'') None None)"
    by (simp add: scenario_provider_def check_request_def getSdnData_request_def
        getSdnData_params_def)
  from check_agrees_with_lookup_on_equal_answers
         [where prov = scenario_provider and log = "[]" and log' = "[]" and env = None
            and fz = True and country = None and limit_arg = None, OF a] a
  show ?thesis
    by simp blast
qed

subsection \<open>The limit parameter\<close>

text \<open>
  C10. The request of \<^verbatim>\<open>getSdnData\<close> carries a \<open>limit\<close> parameter exactly when
  the limit is not zero: for zero there is none, for any other limit there is exactly
  one and its value is the decimal string of the limit (reading it back gives the
  limit). The request built this way is the one sent. With the argument left out the
  default applies and \<open>limit=100\<close> is sent. The limit ranges over the safe integers,
  those of magnitude below \<open>2^53\<close>, which JavaScript holds exactly and prints digit by
  digit.
\<close>

theorem getSdnData_limit_parameter:
  "\<bar>int_of limit\<bar> < 2 ^ 53 \<and>
   filter (\<lambda>p. fst p = ''limit'') (req_params (getSdnData_request env name_arg country (Some limit))) =
     (if int_of limit \<noteq> 0 then [(''limit'', number_toString limit)] else []) \<and>
   (''limit'' \<in> fst ` set (req_params (getSdnData_request env name_arg country (Some limit)))
      \<longleftrightarrow> int_of limit \<noteq> 0) \<and>
   read_number (number_toString limit) = int_of limit \<and>
   snd (getSdnData env prov log name_arg country (Some limit)) =
     log @ [getSdnData_request env name_arg country (Some limit)] \<and>
   filter (\<lambda>p. fst p = ''limit'') (req_params (getSdnData_request env name_arg country None)) =
     [(''limit'', ''100'')]"
proof -
  have only: "filter (\<lambda>p. fst p = ''limit'')
                (req_params (getSdnData_request env name_arg country (Some limit))) =
              (if int_of limit \<noteq> 0 then [(''limit'', number_toString limit)] else [])"
    by (simp add: getSdnData_request_def getSdnData_params_def)
  have present: "''limit'' \<in> fst ` set (req_params (getSdnData_request env name_arg country (Some limit)))
                   \<longleftrightarrow> int_of limit \<noteq> 0"
    by (auto simp: getSdnData_request_def getSdnData_params_def)
  have sent: "snd (getSdnData env prov log name_arg country (Some limit)) =
                log @ [getSdnData_request env name_arg country (Some limit)]"
    by (simp add: getSdnData_eq)
  have dflt: "filter (\<lambda>p. fst p = ''limit'')
                (req_params (getSdnData_request env name_arg country None)) = [(''limit'', ''100'')]"
    by (simp add: getSdnData_request_def getSdnData_params_def int_of_default_limit
        number_toString_default)
  from only present sent dflt read_number_toString [of limit] int_of_bound [of limit]
  show ?thesis by blast
qed

text \<open>
  C10 at limit 0, where only the name is sent, at limit 25, and at the largest safe
  integer.
\<close>

theorem getSdnData_limit_parameter_witness:
  "req_params (getSdnData_request None (Some ''Jane Doe'') None (Some (safe_integer_of 0))) =
     [(''name'', ''Jane Doe'')] \<and>
   filter (\<lambda>p. fst p = ''limit'')
     (req_params (getSdnData_request None (Some ''Jane Doe'') None (Some (safe_integer_of 25)))) =
     [(''limit'', ''25'')] \<and>
   filter (\<lambda>p. fst p = ''limit'')
     (req_params (getSdnData_request None (Some ''Jane Doe'') None
        (Some (safe_integer_of 9007199254740991)))) =
     [(''limit'', ''9007199254740991'')]"
proof -
  have i0: "int_of (safe_integer_of 0) = 0"
   and i25: "int_of (safe_integer_of 25) = 25"
   and imax: "int_of (safe_integer_of 9007199254740991) = 9007199254740991"
    by (simp_all add: safe_integer_of_inverse)
  have d25: "decimal_digits 25 = ''25''"
    by (simp add: decimal_digits.simps digit_chars)
  have dmax: "decimal_digits 9007199254740991 = ''9007199254740991''"
    by (simp add: decimal_digits.simps digit_chars)
  have s25: "number_toString (safe_integer_of 25) = ''25''"
    by (simp add: number_toString_def i25 d25)
  have smax: "number_toString (safe_integer_of 9007199254740991) = ''9007199254740991''"
    by (simp add: number_toString_def imax dmax)
  have p0: "req_params (getSdnData_request None (Some ''Jane Doe'') None (Some (safe_integer_of 0))) =
              [(''name'', ''Jane Doe'')]"
    by (simp add: getSdnData_request_def getSdnData_params_def i0)
  from getSdnData_limit_parameter
         [of "safe_integer_of 25" None "Some ''Jane Doe''" None unreachable_provider "[]"]
       getSdnData_limit_parameter
         [of "safe_integer_of 9007199254740991" None "Some ''Jane Doe''" None unreachable_provider "[]"]
       p0
  show ?thesis by (simp add: s25 smax i25 imax)
qed

end
